theory Spec2Isabelle
  imports Main "HOL-Library.Word"
begin

unbundle bit_operations_syntax

section \<open>Go values used by ssh.go\<close>

type_synonym byte = "8 word"
type_synonym uint32 = "32 word"

text \<open>Go \<open>error\<close> values: \<open>io.EOF\<close>, the values built by \<open>errors.New\<close>, and the
  errors produced inside the ssh library (kept by their message).\<close>

datatype error = EOF | errors_New string | ssh_error string

section \<open>The transport sub-channel (\<open>ssh.Channel\<close>)\<close>

text \<open>
  \<open>ssh.Channel\<close> belongs to the imported ssh package. One direction of a sub-channel is
  modelled by the bytes that have arrived and have not been read yet (\<open>pending\<close>) and by
  whether the sending side has closed (\<open>closed\<close>).

  \<open>Read(p)\<close> follows Go's \<open>io.Reader\<close> contract as the ssh package implements it: it copies
  at most \<open>len(p)\<close> of the buffered bytes into the front of \<open>p\<close> and returns their number;
  with data buffered it returns at once, also when fewer than \<open>len(p)\<close> bytes are there;
  with nothing buffered it returns \<open>io.EOF\<close> on a closed channel and waits otherwise.
  A call that waits is the value \<open>None\<close>: the state holds no further bytes to wake it.
  The result is the buffer after the call, the count and the error.

  \<open>Write(data)\<close> queues all of \<open>data\<close> behind the bytes already in flight, or fails with
  \<open>io.EOF\<close> on a closed channel.
\<close>

record sshlib_Channel =
  pending :: "byte list"
  closed :: bool

definition Channel_Read ::
  "byte list \<Rightarrow> sshlib_Channel \<Rightarrow> ((byte list \<times> nat \<times> error option) \<times> sshlib_Channel) option" where
  "Channel_Read p ch =
     (if length p = 0 then Some ((p, 0, None), ch)
      else if pending ch = [] then
        (if closed ch then Some ((p, 0, Some EOF), ch) else None)
      else
        (let n = min (length p) (length (pending ch))
         in Some ((take n (pending ch) @ drop n p, n, None),
                  ch\<lparr>pending := drop n (pending ch)\<rparr>)))"

definition Channel_Write ::
  "byte list \<Rightarrow> sshlib_Channel \<Rightarrow> (nat \<times> error option) \<times> sshlib_Channel" where
  "Channel_Write data ch =
     (if closed ch then ((0, Some EOF), ch)
      else ((length data, None), ch\<lparr>pending := pending ch @ data\<rparr>))"

text \<open>\<open>binary.BigEndian.Uint32(b)\<close>:
  \<open>uint32(b[3]) | uint32(b[2])<<8 | uint32(b[1])<<16 | uint32(b[0])<<24\<close>.
  Every caller in ssh.go passes the 4-byte buffer \<open>make([]byte, 4)\<close>.\<close>

definition BigEndian_Uint32 :: "byte list \<Rightarrow> uint32" where
  "BigEndian_Uint32 b =
     ucast (b ! 3) OR push_bit 8 (ucast (b ! 2)) OR push_bit 16 (ucast (b ! 1))
       OR push_bit 24 (ucast (b ! 0))"

section \<open>Channel metadata and the framed channel (\<open>ssh_channel\<close>)\<close>

record ssh_greetingPayload =
  Name :: string

record ssh_channelData =
  Service :: string
  Headers :: "string list"

text \<open>\<open>type ssh_channel struct { ssh.Channel; ssh_channelData }\<close>\<close>

record ssh_channel =
  Channel :: sshlib_Channel
  channelData :: ssh_channelData

definition ssh_channel_Headers :: "ssh_channel \<Rightarrow> string list" where
  "ssh_channel_Headers c = Headers (channelData c)"

definition ssh_channel_Service :: "ssh_channel \<Rightarrow> string" where
  "ssh_channel_Service c = Service (channelData c)"

text \<open>
  \<open>ReadFrame\<close>: one \<open>Read\<close> into a 4-byte buffer, the length decoded from that buffer,
  one \<open>Read\<close> into a zeroed buffer of that length. Both counts returned by \<open>Read\<close> are
  dropped (\<open>_, err := c.Read(...)\<close>); only the error is looked at. The result is
  \<open>None\<close> when a \<open>Read\<close> waits for ever, otherwise \<open>(nil, err)\<close> as \<open>Inl err\<close> or
  \<open>(frame, nil)\<close> as \<open>Inr frame\<close>, with the channel after the call.
\<close>

definition ReadFrame :: "ssh_channel \<Rightarrow> ((error + byte list) \<times> ssh_channel) option" where
  "ReadFrame c =
     (case Channel_Read (replicate 4 0) (Channel c) of
        None \<Rightarrow> None
      | Some ((bytes, _, err), ch1) \<Rightarrow>
          (case err of
             Some e \<Rightarrow> Some (Inl e, c\<lparr>Channel := ch1\<rparr>)
           | None \<Rightarrow>
               (let length = BigEndian_Uint32 bytes;
                    frame = replicate (unat length) 0
                in case Channel_Read frame ch1 of
                     None \<Rightarrow> None
                   | Some ((frame, _, err), ch2) \<Rightarrow>
                       (case err of
                          Some e \<Rightarrow> Some (Inl e, c\<lparr>Channel := ch2\<rparr>)
                        | None \<Rightarrow> Some (Inr frame, c\<lparr>Channel := ch2\<rparr>)))))"

text \<open>The four bytes \<open>byte(n>>24), byte(n>>16), byte(n>>8), byte(n)\<close> of \<open>WriteFrame\<close>.\<close>

definition frame_header :: "uint32 \<Rightarrow> byte list" where
  "frame_header n =
     [ucast (drop_bit 24 n), ucast (drop_bit 16 n), ucast (drop_bit 8 n), ucast n]"

text \<open>\<open>WriteFrame\<close>: \<open>n := uint32(len(frame))\<close> truncates the length to 32 bits; header
  and payload go out in a single \<open>Write\<close>, whose error is returned.\<close>

definition WriteFrame :: "byte list \<Rightarrow> ssh_channel \<Rightarrow> error option \<times> ssh_channel" where
  "WriteFrame frame c =
     (let buffer = [];
          n = (word_of_nat (length frame) :: uint32);
          buffer = buffer @ frame_header n;
          buffer = buffer @ frame;
          ((_, err), ch') = Channel_Write buffer (Channel c)
      in (err, c\<lparr>Channel := ch'\<rparr>))"

text \<open>The specification's wire form of a length: its 4-byte big-endian encoding, written
  with division and remainder. It is compared with \<open>frame_header\<close> below.\<close>

definition be32 :: "nat \<Rightarrow> byte list" where
  "be32 n = [of_nat (n div 2 ^ 24 mod 256), of_nat (n div 2 ^ 16 mod 256),
             of_nat (n div 2 ^ 8 mod 256), of_nat (n mod 256)]"

text \<open>A freshly opened sub-channel with nothing in flight, carrying metadata \<open>m\<close>.\<close>

definition new_channel :: "ssh_channelData \<Rightarrow> ssh_channel" where
  "new_channel m = \<lparr>Channel = \<lparr>pending = [], closed = False\<rparr>, channelData = m\<rparr>"

section \<open>Structured payloads (\<open>ssh.Marshal\<close>, \<open>ssh.Unmarshal\<close>)\<close>

text \<open>
  Both functions belong to the imported ssh package, so the operations below take them
  as parameters. \<open>ssh.Unmarshal(data, &out)\<close> receives the bytes and the current value
  of \<open>out\<close>, and returns its error together with what it left in \<open>out\<close>.
\<close>

type_synonym 'a unmarshal = "byte list \<Rightarrow> 'a \<Rightarrow> error option \<times> 'a"

text \<open>
  To run the model on concrete inputs the package's wire encoding is written out for the
  two structs of ssh.go, after RFC 4251: a \<open>string\<close> field is a 4-byte big-endian length
  followed by the bytes, a \<open>[]string\<close> field is a name-list, the entries joined by
  commas and encoded as one string. Fields are decoded in order into \<open>out\<close>; bytes left
  over after the last field are an error. The length is written with the same four
  bytes as a frame header. A Go string is a sequence of bytes, as a \<open>string\<close> is here.
\<close>

definition bytes_of :: "string \<Rightarrow> byte list" where
  "bytes_of s = map (\<lambda>c. of_nat (of_char c)) s"

definition string_of :: "byte list \<Rightarrow> string" where
  "string_of b = map (\<lambda>w. char_of (unat w)) b"

definition marshal_string :: "string \<Rightarrow> byte list" where
  "marshal_string s = frame_header (word_of_nat (length s)) @ bytes_of s"

definition parseString :: "byte list \<Rightarrow> (string \<times> byte list) option" where
  "parseString data =
     (if length data < 4 then None
      else let n = unat (BigEndian_Uint32 data); rest = drop 4 data
           in if length rest < n then None
              else Some (string_of (take n rest), drop n rest))"

fun join_commas :: "string list \<Rightarrow> string" where
  "join_commas [] = []"
| "join_commas [h] = h"
| "join_commas (h # hs) = h @ CHR '','' # join_commas hs"

fun split_commas :: "string \<Rightarrow> string list" where
  "split_commas [] = [[]]"
| "split_commas (c # cs) =
     (if c = CHR '','' then [] # split_commas cs
      else (case split_commas cs of
              [] \<Rightarrow> [[c]]
            | w # ws \<Rightarrow> (c # w) # ws))"

definition parseNameList :: "byte list \<Rightarrow> (string list \<times> byte list) option" where
  "parseNameList data =
     (case parseString data of
        None \<Rightarrow> None
      | Some (contents, rest) \<Rightarrow>
          if contents = [] then Some ([], rest) else Some (split_commas contents, rest))"

definition wire_Marshal_greeting :: "ssh_greetingPayload \<Rightarrow> byte list" where
  "wire_Marshal_greeting g = marshal_string (Name g)"

definition wire_Unmarshal_greeting :: "ssh_greetingPayload unmarshal" where
  "wire_Unmarshal_greeting data out =
     (case parseString data of
        None \<Rightarrow> (Some (ssh_error ''ssh: parse error''), out)
      | Some (s, rest) \<Rightarrow>
          (let out = out\<lparr>Name := s\<rparr>
           in if rest \<noteq> [] then (Some (ssh_error ''ssh: parse error''), out)
              else (None, out)))"

definition wire_Marshal_channelData :: "ssh_channelData \<Rightarrow> byte list" where
  "wire_Marshal_channelData m =
     marshal_string (Service m) @ marshal_string (join_commas (Headers m))"

definition wire_Unmarshal_channelData :: "ssh_channelData unmarshal" where
  "wire_Unmarshal_channelData data out =
     (case parseString data of
        None \<Rightarrow> (Some (ssh_error ''ssh: parse error''), out)
      | Some (s, rest) \<Rightarrow>
          (let out = out\<lparr>Service := s\<rparr>
           in case parseNameList rest of
                None \<Rightarrow> (Some (ssh_error ''ssh: parse error''), out)
              | Some (nl, rest) \<Rightarrow>
                  (let out = out\<lparr>Headers := nl\<rparr>
                   in if rest \<noteq> [] then (Some (ssh_error ''ssh: parse error''), out)
                      else (None, out))))"

section \<open>The Peer\<close>

text \<open>
  Modelled from the spec: the \<open>Peer\<close> struct and the option keys \<open>OptName\<close> and
  \<open>OptPrivateKey\<close> are declared outside ssh.go. ssh.go uses \<open>peer.GetOption\<close>, the map
  \<open>peer.conns\<close> (written under \<open>peer.Lock\<close>) and the Go channel \<open>peer.incomingCh\<close>. The
  spec describes them as configuration options, a registry of live connections keyed by
  remote address string, and an unbounded intake queue of inbound Channels; a send on
  the queue appends.
\<close>

datatype option_key = OptName | OptPrivateKey

record ssh_peerConnection =
  addr :: string
  name :: string
  conn :: nat

record Peer =
  options :: "option_key \<Rightarrow> string"
  conns :: "string \<rightharpoonup> ssh_peerConnection"
  incomingCh :: "ssh_channel list"

definition GetOption :: "Peer \<Rightarrow> option_key \<Rightarrow> string" where
  "GetOption p k = options p k"


definition ssh_peerConnection_Addr :: "ssh_peerConnection \<Rightarrow> string" where
  "ssh_peerConnection_Addr c = addr c"

section \<open>Server-side authentication\<close>

text \<open>
  The \<open>PublicKeyCallback\<close> closure built by \<open>newPeerListener_ssh\<close>. It closes over the
  loaded signer \<open>pk\<close>; \<open>own\<close> is \<open>pk.PublicKey()\<close> and \<open>Marshal\<close> is the ssh package's
  serialisation of a public key. \<open>bytes.Equal\<close> is equality of the byte sequences.
\<close>

datatype ssh_Permissions = Permissions

definition PublicKeyCallback ::
  "('key \<Rightarrow> byte list) \<Rightarrow> 'key \<Rightarrow> 'conn \<Rightarrow> 'key \<Rightarrow> error + ssh_Permissions" where
  "PublicKeyCallback Marshal own cm key =
     (if Marshal key = Marshal own then Inr Permissions
      else Inl (errors_New ''unauthorized''))"

section \<open>Inbound channel dispatch (\<open>ssh_acceptChannels\<close>)\<close>

text \<open>
  An inbound channel-open as the transport hands it over (\<open>ssh.NewChannel\<close>): its
  declared type, its extra data, and what the transport answers to the first \<open>Accept()\<close>
  on it. \<open>ident\<close> stands for the identity of the object: two opens with the same type
  and data are still two opens.
\<close>

record ssh_NewChannel =
  ident :: nat
  ChannelType :: string
  ExtraData :: "byte list"
  Accept :: "error + sshlib_Channel"

datatype RejectionReason = Prohibited | ConnectionFailed | UnknownChannelType | ResourceShortage

datatype channel_reply = Reject RejectionReason string | Accepted

text \<open>
  The body of the goroutine started for a \<open>@duplex\<close> open, cut at the statements that
  touch state shared with other goroutines. Two variables are shared: \<open>meta\<close>, declared
  once before the loop, into which every goroutine decodes and which it reads back; and
  the loop variable \<open>newCh\<close>, which the closure captures. ssh.go is written for the Go
  of 2014 (it imports \<open>io/ioutil\<close>, and no \<open>go.mod\<close> asks for another language version),
  where \<open>for newCh := range chans\<close> has one variable for all iterations: a goroutine
  reads whatever open the loop received last.
  \<^item> \<open>AtUnmarshal\<close>: \<open>err := ssh.Unmarshal(newCh.ExtraData(), &meta)\<close>;
  \<^item> \<open>AtRejectParse\<close>: \<open>newCh.Reject(ssh.UnknownChannelType, "failed to parse channel data")\<close>;
  \<^item> \<open>AtServiceCheck\<close>: \<open>if meta.Service == ""\<close>;
  \<^item> \<open>AtRejectEmpty\<close>: \<open>newCh.Reject(ssh.UnknownChannelType, "empty service")\<close>;
  \<^item> \<open>AtAccept\<close>: \<open>ch, reqs, err := newCh.Accept()\<close>, and the log line on error;
  \<^item> \<open>AtSend ch\<close>: \<open>peer.incomingCh <- &ssh_channel{ch, meta}\<close>;
  \<^item> \<open>Returned\<close>: the goroutine has ended.
  \<open>go ssh.DiscardRequests(reqs)\<close> touches none of the state kept here.
\<close>

datatype handler_pc =
  AtUnmarshal | AtRejectParse | AtServiceCheck | AtRejectEmpty | AtAccept
  | AtSend sshlib_Channel | Returned

text \<open>
  The state of one call of \<open>ssh_acceptChannels\<close>: the two shared variables (\<open>newCh\<close> is
  \<open>None\<close> until the loop has received an open), the opens still to arrive on \<open>chans\<close>,
  the Peer, the program counter of every goroutine started so far, the opens on which
  \<open>Accept\<close> or \<open>Reject\<close> has been called, the replies sent to the remote side, and the
  log lines.
\<close>

record accept_state =
  meta :: ssh_channelData
  newCh :: "ssh_NewChannel option"
  chans :: "ssh_NewChannel list"
  peer :: Peer
  handlers :: "handler_pc list"
  decided :: "ssh_NewChannel list"
  replies :: "(ssh_NewChannel \<times> channel_reply) list"
  logs :: "string list"

text \<open>
  The ssh package answers an open once. \<open>Reject\<close> and \<open>Accept\<close> on an open that has
  been decided return an error and send nothing; otherwise they mark it decided, and
  \<open>Reject\<close> sends the rejection while \<open>Accept\<close> returns what the transport answers and,
  on success, has sent the confirmation. ssh.go drops the error of \<open>Reject\<close>.
\<close>

definition NewChannel_Reject ::
  "ssh_NewChannel \<Rightarrow> RejectionReason \<Rightarrow> string \<Rightarrow> accept_state \<Rightarrow> accept_state" where
  "NewChannel_Reject c reason message s =
     (if c \<in> set (decided s) then s
      else s\<lparr>decided := decided s @ [c], replies := replies s @ [(c, Reject reason message)]\<rparr>)"

definition NewChannel_Accept ::
  "ssh_NewChannel \<Rightarrow> accept_state \<Rightarrow> (error + sshlib_Channel) \<times> accept_state" where
  "NewChannel_Accept c s =
     (if c \<in> set (decided s)
      then (Inl (ssh_error ''ssh: can call Accept or Reject only once''), s)
      else (case Accept c of
              Inl err \<Rightarrow> (Inl err, s\<lparr>decided := decided s @ [c]\<rparr>)
            | Inr ch \<Rightarrow>
                (Inr ch, s\<lparr>decided := decided s @ [c], replies := replies s @ [(c, Accepted)]\<rparr>)))"

text \<open>One statement of a goroutine; \<open>c\<close> is the value of \<open>newCh\<close> when the statement
  runs.\<close>

fun handler_step ::
  "ssh_channelData unmarshal \<Rightarrow> handler_pc \<Rightarrow> ssh_NewChannel \<Rightarrow> accept_state
     \<Rightarrow> handler_pc \<times> accept_state" where
  "handler_step um AtUnmarshal c s =
     (case um (ExtraData c) (meta s) of
        (Some err, m) \<Rightarrow> (AtRejectParse, s\<lparr>meta := m\<rparr>)
      | (None, m) \<Rightarrow> (AtServiceCheck, s\<lparr>meta := m\<rparr>))"
| "handler_step um AtRejectParse c s =
     (Returned, NewChannel_Reject c UnknownChannelType ''failed to parse channel data'' s)"
| "handler_step um AtServiceCheck c s =
     (if Service (meta s) = '''' then (AtRejectEmpty, s) else (AtAccept, s))"
| "handler_step um AtRejectEmpty c s =
     (Returned, NewChannel_Reject c UnknownChannelType ''empty service'' s)"
| "handler_step um AtAccept c s =
     (case NewChannel_Accept c s of
        (Inl err, s') \<Rightarrow> (Returned, s'\<lparr>logs := logs s' @ [''debug: accept error:'']\<rparr>)
      | (Inr ch, s') \<Rightarrow> (AtSend ch, s'))"
| "handler_step um (AtSend ch) c s =
     (Returned, s\<lparr>peer := (peer s)\<lparr>incomingCh := incomingCh (peer s) @
        [\<lparr>Channel = ch, channelData = meta s\<rparr>]\<rparr>\<rparr>)"
| "handler_step um Returned c s = (Returned, s)"

text \<open>
  The scheduler. \<open>Recv\<close> is one iteration of \<open>for newCh := range chans\<close>: the loop
  takes the next open into \<open>newCh\<close>, and the \<open>switch\<close> starts a goroutine for the type
  \<open>@duplex\<close> and has no other case; with no open left the loop has ended. \<open>Step i\<close> lets
  goroutine \<open>i\<close> run its next statement on the current \<open>newCh\<close>. A schedule is the list
  of these actions in the order they happen.
\<close>

datatype action = Recv | Step nat

fun sched_step :: "ssh_channelData unmarshal \<Rightarrow> action \<Rightarrow> accept_state \<Rightarrow> accept_state" where
  "sched_step um Recv s =
     (case chans s of
        [] \<Rightarrow> s
      | c # rest \<Rightarrow>
          (if ChannelType c = ''@duplex''
           then s\<lparr>newCh := Some c, chans := rest, handlers := handlers s @ [AtUnmarshal]\<rparr>
           else s\<lparr>newCh := Some c, chans := rest\<rparr>))"
| "sched_step um (Step i) s =
     (if i < length (handlers s) then
        (case newCh s of
           None \<Rightarrow> s
         | Some c \<Rightarrow>
             (let (pc', s') = handler_step um (handlers s ! i) c s
              in s'\<lparr>handlers := (handlers s')[i := pc']\<rparr>))
      else s)"

fun run_schedule ::
  "ssh_channelData unmarshal \<Rightarrow> action list \<Rightarrow> accept_state \<Rightarrow> accept_state" where
  "run_schedule um [] s = s"
| "run_schedule um (a # sched) s = run_schedule um sched (sched_step um a s)"

text \<open>The state in which \<open>ssh_acceptChannels(chans, peer)\<close> starts: \<open>meta\<close> at its zero
  value, nothing received yet, no goroutine started. What the call does from there is
  given by the schedules.\<close>

definition ssh_acceptChannels :: "ssh_NewChannel list \<Rightarrow> Peer \<Rightarrow> accept_state" where
  "ssh_acceptChannels opens p =
     \<lparr>meta = \<lparr>Service = '''', Headers = []\<rparr>, newCh = None, chans = opens, peer = p,
      handlers = [], decided = [], replies = [], logs = []\<rparr>"

text \<open>Receiving an open and running the goroutine started for it to its end, before
  the loop receives again and with no other goroutine in between. \<open>k\<close> is the number
  the new goroutine gets; its body has at most four statements on any path.\<close>

definition recv_and_handle :: "nat \<Rightarrow> action list" where
  "recv_and_handle k = [Recv, Step k, Step k, Step k, Step k]"

section \<open>Accepting a connection (\<open>ssh_handleConn\<close>)\<close>

record net_Conn =
  RemoteAddr_Network :: string
  RemoteAddr_String :: string

record ssh_Request =
  Type :: string
  WantReply :: bool
  Payload :: "byte list"

text \<open>What \<open>ssh.NewServerConn\<close> returns on success: the connection (its \<open>User()\<close> and a
  handle) and the inbound channel-opens that will arrive on \<open>chans\<close>.\<close>

record sshlib_ServerConn =
  User :: string
  sc_handle :: nat
  sc_chans :: "ssh_NewChannel list"

text \<open>What a call of \<open>ssh_handleConn\<close> leaves behind: the Peer, whether \<open>conn.Close()\<close>
  has run, the requests handed to \<open>SendRequest\<close>, the log lines, and the accept loop's
  state when the loop was entered.\<close>

record handleConn_result =
  hc_peer :: Peer
  hc_conn_closed :: bool
  hc_sent :: "ssh_Request list"
  hc_logs :: "string list"
  hc_accepting :: "accept_state option"

text \<open>\<open>handshake\<close> is the outcome of \<open>ssh.NewServerConn\<close>, \<open>greet\<close> the \<open>(ok, err)\<close> that
  \<open>SendRequest\<close> returns for the greeting. The deferred \<open>conn.Close()\<close> runs on every
  return. The registration in \<open>peer.conns\<close> comes before the greeting, and no statement of
  the function removes an entry. Log lines are kept by their fixed text.\<close>

definition ssh_handleConn ::
  "(ssh_greetingPayload \<Rightarrow> byte list) \<Rightarrow> net_Conn \<Rightarrow> error + sshlib_ServerConn
     \<Rightarrow> bool \<times> error option \<Rightarrow> Peer \<Rightarrow> handleConn_result" where
  "ssh_handleConn Marshal c handshake greet p =
     (case handshake of
        Inl err \<Rightarrow>
          \<lparr>hc_peer = p, hc_conn_closed = True, hc_sent = [],
           hc_logs = [''debug: failed to handshake:''], hc_accepting = None\<rparr>
      | Inr sshConn \<Rightarrow>
          (let p1 = p\<lparr>conns := (conns p)(RemoteAddr_String c \<mapsto>
                      \<lparr>addr = RemoteAddr_Network c @ ''://'' @ RemoteAddr_String c,
                       name = User sshConn,
                       conn = sc_handle sshConn\<rparr>)\<rparr>;
               req = \<lparr>Type = ''@duplex-greeting'', WantReply = True,
                      Payload = Marshal \<lparr>Name = GetOption p1 OptName\<rparr>\<rparr>;
               (ok, err) = greet
           in if err \<noteq> None \<or> \<not> ok then
                \<lparr>hc_peer = p1, hc_conn_closed = True, hc_sent = [req],
                 hc_logs = [''debug: failed to greet:''], hc_accepting = None\<rparr>
              else
                \<lparr>hc_peer = p1, hc_conn_closed = True, hc_sent = [req],
                 hc_logs = [], hc_accepting = Some (ssh_acceptChannels (sc_chans sshConn) p1)\<rparr>))"

section \<open>Dialing (\<open>newPeerConnection_ssh\<close>)\<close>

text \<open>
  The goroutine that serves \<open>reqs\<close>. \<open>nameCh\<close> is unbuffered and \<open>newPeerConnection_ssh\<close>
  receives from it exactly once, so the first \<open>nameCh <- greeting.Name\<close> hands the name
  over and any later one never completes. The state is the name handed over so far and
  the \<open>Reply\<close> calls made; the result says whether the loop ran to the end of \<open>reqs\<close>
  or is stuck in a send.
\<close>

datatype loop_status = Exited | BlockedOnSend

fun request_loop ::
  "ssh_greetingPayload unmarshal \<Rightarrow> ssh_Request list \<Rightarrow> string option
     \<Rightarrow> (ssh_Request \<times> bool) list
     \<Rightarrow> string option \<times> (ssh_Request \<times> bool) list \<times> loop_status" where
  "request_loop um [] handed rs = (handed, rs, Exited)"
| "request_loop um (r # reqs) handed rs =
     (if Type r = ''@duplex-greeting'' then
        (case um (Payload r) \<lparr>Name = ''''\<rparr> of
           (Some err, greeting) \<Rightarrow> request_loop um reqs handed rs
         | (None, greeting) \<Rightarrow>
             (case handed of
                None \<Rightarrow> request_loop um reqs (Some (Name greeting)) (rs @ [(r, True)])
              | Some _ \<Rightarrow> (handed, rs, BlockedOnSend)))
      else request_loop um reqs handed (rs @ [(r, False)]))"



section \<open>Sample inputs\<close>

text \<open>The channel metadata of the specification's end-to-end scenario.\<close>

definition echo_meta :: ssh_channelData where
  "echo_meta = \<lparr>Service = ''echo'', Headers = [''v=1'']\<rparr>"

text \<open>A Peer configured with the display name \<open>"alice"\<close>, with no connection and an
  empty intake queue.\<close>

definition alice_peer :: Peer where
  "alice_peer =
     \<lparr>options = (\<lambda>k. case k of OptName \<Rightarrow> ''alice'' | OptPrivateKey \<Rightarrow> ''~/.ssh/id_rsa''),
      conns = Map.empty, incomingCh = []\<rparr>"

text \<open>Two \<open>@duplex\<close> channel-opens with the services \<open>"a"\<close> and \<open>"b"\<close>, as
  \<open>Open("a", nil)\<close> and \<open>Open("b", nil)\<close> send them, which the transport will accept.\<close>

definition open_a :: ssh_NewChannel where
  "open_a = \<lparr>ident = 1, ChannelType = ''@duplex'',
             ExtraData = wire_Marshal_channelData \<lparr>Service = ''a'', Headers = []\<rparr>,
             Accept = Inr \<lparr>pending = [], closed = False\<rparr>\<rparr>"

definition open_b :: ssh_NewChannel where
  "open_b = \<lparr>ident = 2, ChannelType = ''@duplex'',
             ExtraData = wire_Marshal_channelData \<lparr>Service = ''b'', Headers = []\<rparr>,
             Accept = Inr \<lparr>pending = [], closed = False\<rparr>\<rparr>"

text \<open>Channel-opens of the end-to-end scenario (\<open>Open("echo", ["v=1"])\<close>): one the
  transport will accept, one whose \<open>Accept()\<close> fails because the connection has gone
  away, one with undecodable extra data, one with an empty service, and one of a type
  other than \<open>@duplex\<close>.\<close>

definition open_echo :: ssh_NewChannel where
  "open_echo = \<lparr>ident = 3, ChannelType = ''@duplex'', ExtraData = wire_Marshal_channelData echo_meta,
                Accept = Inr \<lparr>pending = [], closed = False\<rparr>\<rparr>"

definition open_echo_gone :: ssh_NewChannel where
  "open_echo_gone = \<lparr>ident = 4, ChannelType = ''@duplex'', ExtraData = wire_Marshal_channelData echo_meta,
                     Accept = Inl EOF\<rparr>"

definition open_garbled :: ssh_NewChannel where
  "open_garbled = \<lparr>ident = 5, ChannelType = ''@duplex'', ExtraData = [1, 2, 3],
                   Accept = Inr \<lparr>pending = [], closed = False\<rparr>\<rparr>"

definition open_no_service :: ssh_NewChannel where
  "open_no_service = \<lparr>ident = 6, ChannelType = ''@duplex'',
                      ExtraData = wire_Marshal_channelData \<lparr>Service = '''', Headers = []\<rparr>,
                      Accept = Inr \<lparr>pending = [], closed = False\<rparr>\<rparr>"

definition open_session :: ssh_NewChannel where
  "open_session = \<lparr>ident = 7, ChannelType = ''session'', ExtraData = [],
                   Accept = Inr \<lparr>pending = [], closed = False\<rparr>\<rparr>"


definition tcp_conn :: net_Conn where
  "tcp_conn = \<lparr>RemoteAddr_Network = ''tcp'', RemoteAddr_String = ''10.0.0.2:41000''\<rparr>"

definition bob_serverConn :: sshlib_ServerConn where
  "bob_serverConn = \<lparr>User = ''bob'', sc_handle = 1, sc_chans = []\<rparr>"

text \<open>Out-of-band requests: the greeting that \<open>"alice"\<close> sends, and a keepalive.\<close>

definition greeting_alice :: ssh_Request where
  "greeting_alice = \<lparr>Type = ''@duplex-greeting'', WantReply = True,
                     Payload = wire_Marshal_greeting \<lparr>Name = ''alice''\<rparr>\<rparr>"

definition keepalive :: ssh_Request where
  "keepalive = \<lparr>Type = ''keepalive@openssh.com'', WantReply = True, Payload = []\<rparr>"

section \<open>The frame codec\<close>

lemma Uint32_frame_header: "BigEndian_Uint32 (frame_header n @ rest) = n"
proof -
  have "(ucast (ucast n :: byte) OR push_bit 8 (ucast (ucast (drop_bit 8 n) :: byte))
          OR push_bit 16 (ucast (ucast (drop_bit 16 n) :: byte))
          OR push_bit 24 (ucast (ucast (drop_bit 24 n) :: byte)) :: uint32) = n"
  proof (rule bit_word_eqI)
    fix k assume "k < LENGTH(32)"
    then have k: "k < 32" by simp
    consider "k < 8" | "8 \<le> k" "k < 16" | "16 \<le> k" "k < 24" | "24 \<le> k"
      by linarith
    then show "bit (ucast (ucast n :: byte) OR push_bit 8 (ucast (ucast (drop_bit 8 n) :: byte))
          OR push_bit 16 (ucast (ucast (drop_bit 16 n) :: byte))
          OR push_bit 24 (ucast (ucast (drop_bit 24 n) :: byte)) :: uint32) k = bit n k"
      using k by cases (auto simp: bit_simps)
  qed
  then show ?thesis
    by (simp add: BigEndian_Uint32_def frame_header_def)
qed

lemma byte_of_word:
  "(ucast (drop_bit k (word_of_nat n :: uint32)) :: byte) = of_nat (n mod 2 ^ 32 div 2 ^ k mod 256)"
proof (rule word_unat_eq_iff [THEN iffD2])
  have "unat (ucast (drop_bit k (word_of_nat n :: uint32)) :: byte)
          = drop_bit k (n mod 2 ^ 32) mod 256"
    by (simp add: unsigned_ucast_eq unat_drop_bit_eq unsigned_of_nat take_bit_eq_mod)
  also have "\<dots> = n mod 2 ^ 32 div 2 ^ k mod 256"
    by (simp add: drop_bit_eq_div)
  finally show "unat (ucast (drop_bit k (word_of_nat n :: uint32)) :: byte)
      = unat (of_nat (n mod 2 ^ 32 div 2 ^ k mod 256) :: byte)"
    by (simp add: unsigned_of_nat take_bit_eq_mod)
qed

lemma frame_header_be32: "frame_header (word_of_nat n) = be32 (n mod 2 ^ 32)"
  unfolding frame_header_def be32_def
  using byte_of_word [of 24 n] byte_of_word [of 16 n] byte_of_word [of 8 n] byte_of_word [of 0 n]
  by simp

lemma unat_Uint32_be32: "unat (BigEndian_Uint32 (be32 (n mod 2 ^ 32) @ rest)) = n mod 2 ^ 32"
  by (simp only: frame_header_be32 [symmetric] Uint32_frame_header)
     (simp add: unsigned_of_nat take_bit_eq_mod)

lemma WriteFrame_open:
  "\<not> closed (Channel c) \<Longrightarrow> WriteFrame frame c =
     (None, c\<lparr>Channel := (Channel c)\<lparr>pending := pending (Channel c) @
        frame_header (word_of_nat (length frame)) @ frame\<rparr>\<rparr>)"
  by (simp add: WriteFrame_def Channel_Write_def)

lemma Read_frame_header:
  "Channel_Read (replicate 4 0) (ch\<lparr>pending := frame_header n @ rest\<rparr>) =
     Some ((frame_header n, 4, None), ch\<lparr>pending := rest\<rparr>)"
  by (simp add: Channel_Read_def frame_header_def)

lemma Read_everything:
  "Channel_Read (replicate (length xs) 0) (ch\<lparr>pending := xs\<rparr>) =
     Some ((xs, length xs, None), ch\<lparr>pending := []\<rparr>)"
  by (cases xs) (simp_all add: Channel_Read_def)

lemma ReadFrame_whole:
  assumes "length frame < 2 ^ 32"
  shows "ReadFrame (c\<lparr>Channel := ch\<lparr>pending := frame_header (word_of_nat (length frame)) @ frame\<rparr>\<rparr>) =
           Some (Inr frame, c\<lparr>Channel := ch\<lparr>pending := []\<rparr>\<rparr>)"
proof -
  have n: "unat (word_of_nat (length frame) :: uint32) = length frame"
    using assms by (simp add: unsigned_of_nat take_bit_nat_eq_self)
  have h: "BigEndian_Uint32 (frame_header (word_of_nat (length frame))) = word_of_nat (length frame)"
    using Uint32_frame_header [of _ "[]"] by simp
  show ?thesis
    unfolding ReadFrame_def by (simp add: Read_frame_header h n Read_everything)
qed

text \<open>
  Claim C1, as amended. For every payload \<open>P\<close> shorter than \<open>2^32\<close> bytes, on an open
  channel with no unread bytes in flight: \<open>WriteFrame\<close> returns no error and the bytes
  it puts on the wire are exactly the 4-byte big-endian encoding of \<open>len(P)\<close> followed
  by \<open>P\<close>; \<open>ReadFrame\<close>, called with these bytes buffered, returns \<open>P\<close> unchanged and
  leaves the channel as it was before the write. The empty payload is included.
\<close>

theorem frame_round_trip:
  assumes "length P < 2 ^ 32" and "\<not> closed (Channel c)" and "pending (Channel c) = []"
  shows "WriteFrame P c = (None, c\<lparr>Channel := (Channel c)\<lparr>pending := be32 (length P) @ P\<rparr>\<rparr>)
       \<and> ReadFrame (snd (WriteFrame P c)) = Some (Inr P, c)"
proof -
  have w: "WriteFrame P c =
      (None, c\<lparr>Channel := (Channel c)\<lparr>pending := frame_header (word_of_nat (length P)) @ P\<rparr>\<rparr>)"
    using assms(2,3) by (simp add: WriteFrame_open)
  have e: "c\<lparr>Channel := (Channel c)\<lparr>pending := []\<rparr>\<rparr> = c"
    using assms(3) by simp
  show ?thesis
    using assms(1) ReadFrame_whole [OF assms(1), where c = c and ch = "Channel c"]
    by (simp add: w frame_header_be32 e)
qed

text \<open>The round trip of the frame \<open>"ping"\<close> on a fresh channel.\<close>

theorem frame_round_trip_witness:
  "WriteFrame [112, 105, 110, 103] (new_channel echo_meta) =
     (None, \<lparr>Channel = \<lparr>pending = [0, 0, 0, 4, 112, 105, 110, 103], closed = False\<rparr>,
             channelData = echo_meta\<rparr>)
   \<and> ReadFrame (snd (WriteFrame [112, 105, 110, 103] (new_channel echo_meta))) =
       Some (Inr [112, 105, 110, 103], new_channel echo_meta)"
proof -
  have "WriteFrame [112, 105, 110, 103] (new_channel echo_meta) =
          (None, (new_channel echo_meta)\<lparr>Channel := (Channel (new_channel echo_meta))\<lparr>pending :=
             be32 (length [112, 105, 110, 103 :: byte]) @ [112, 105, 110, 103]\<rparr>\<rparr>)
      \<and> ReadFrame (snd (WriteFrame [112, 105, 110, 103] (new_channel echo_meta))) =
          Some (Inr [112, 105, 110, 103], new_channel echo_meta)"
    by (rule frame_round_trip) (simp_all add: new_channel_def)
  then show ?thesis
    by (auto simp add: new_channel_def be32_def)
qed

text \<open>
  Claim C1 as stated fails for a payload of exactly \<open>2^32\<close> bytes: the header written is
  \<open>00 00 00 00\<close>, and \<open>ReadFrame\<close> returns the empty payload.
\<close>

theorem frame_round_trip_fails_at_2_32:
  "map_option fst (ReadFrame (snd (WriteFrame (replicate 4294967296 0)
       (new_channel echo_meta)))) = Some (Inr [])
   \<and> replicate 4294967296 (0::byte) \<noteq> []"
proof -
  have "WriteFrame (replicate 4294967296 0) (new_channel echo_meta) =
      (None, \<lparr>Channel = \<lparr>pending = [0, 0, 0, 0] @ replicate 4294967296 0, closed = False\<rparr>,
              channelData = echo_meta\<rparr>)"
    by (simp add: WriteFrame_open new_channel_def frame_header_def)
  then show ?thesis
    by (simp add: ReadFrame_def Channel_Read_def BigEndian_Uint32_def)
qed

text \<open>
  Claim C4 says that \<open>ReadFrame\<close> never returns a payload assembled from fewer bytes than
  the declared length. With a header declaring 5 bytes and only 2 payload bytes arrived so
  far, \<open>ReadFrame\<close> does not wait: the second \<open>Read\<close> returns 2, the count is dropped,
  and the frame handed back is the 2 bytes followed by the 3 zero bytes of the fresh
  buffer, with a nil error.
\<close>

theorem ReadFrame_short_read:
  "ReadFrame \<lparr>Channel = \<lparr>pending = [0, 0, 0, 5, 97, 98], closed = False\<rparr>,
              channelData = echo_meta\<rparr> =
     Some (Inr [97, 98, 0, 0, 0],
           \<lparr>Channel = \<lparr>pending = [], closed = False\<rparr>,
            channelData = echo_meta\<rparr>)"
proof -
  have "replicate 3 (0::byte) = [0, 0, 0]"
    by (simp add: numeral_3_eq_3)
  then show ?thesis
    by (simp add: ReadFrame_def Channel_Read_def BigEndian_Uint32_def)
qed

text \<open>
  Claim C10. For every payload \<open>P\<close>, \<open>WriteFrame\<close> on an open channel returns no error
  and appends to the wire the 4-byte big-endian encoding of \<open>len(P) mod 2^32\<close> followed
  by all of \<open>P\<close>; the length a reader decodes from that prefix is \<open>len(P) mod 2^32\<close>, and
  for \<open>len(P) \<ge> 2^32\<close> it is smaller than the true length.
\<close>

theorem WriteFrame_length_mod_2_32:
  "\<not> closed (Channel c) \<Longrightarrow>
     WriteFrame P c =
       (None, c\<lparr>Channel := (Channel c)\<lparr>pending := pending (Channel c) @
                  be32 (length P mod 2 ^ 32) @ P\<rparr>\<rparr>)
     \<and> unat (BigEndian_Uint32 (be32 (length P mod 2 ^ 32))) = length P mod 2 ^ 32
     \<and> (2 ^ 32 \<le> length P \<longrightarrow> unat (BigEndian_Uint32 (be32 (length P mod 2 ^ 32))) < length P)"
proof -
  assume o: "\<not> closed (Channel c)"
  have d: "unat (BigEndian_Uint32 (be32 (length P mod 2 ^ 32))) = length P mod 2 ^ 32"
    using unat_Uint32_be32 [of "length P" "[]"] by simp
  have "2 ^ 32 \<le> length P \<longrightarrow> length P mod 2 ^ 32 < length P"
  proof
    assume "2 ^ 32 \<le> length P"
    moreover have "length P mod 2 ^ 32 < 2 ^ 32" by simp
    ultimately show "length P mod 2 ^ 32 < length P" by linarith
  qed
  with o d show ?thesis
    by (simp add: WriteFrame_open frame_header_be32)
qed

text \<open>A payload of \<open>2^32\<close> bytes goes out without error under the prefix \<open>00 00 00 00\<close>.\<close>

theorem WriteFrame_length_mod_2_32_witness:
  "fst (WriteFrame (replicate 4294967296 7) (new_channel echo_meta)) = None
   \<and> take 4 (pending (Channel (snd (WriteFrame (replicate 4294967296 7) (new_channel echo_meta)))))
       = [0, 0, 0, 0]
   \<and> unat (BigEndian_Uint32 (be32 (length (replicate 4294967296 (7::byte)) mod 2 ^ 32)))
       < length (replicate 4294967296 (7::byte))"
  using WriteFrame_length_mod_2_32 [of "new_channel echo_meta" "replicate 4294967296 7"]
  by (simp add: new_channel_def be32_def)


section \<open>The wire encoding\<close>

lemma string_of_bytes_of: "string_of (bytes_of s) = s"
proof -
  have "char_of (unat (of_nat (of_char c) :: byte)) = c" for c
    by (simp add: unsigned_of_nat take_bit_eq_mod)
  then show ?thesis
    by (simp add: string_of_def bytes_of_def map_idI)
qed

lemma length_bytes_of: "length (bytes_of s) = length s"
  by (simp add: bytes_of_def)

lemma parseString_marshal_string:
  assumes "length s < 2 ^ 32"
  shows "parseString (marshal_string s @ rest) = Some (s, rest)"
proof -
  have n: "unat (word_of_nat (length s) :: uint32) = length s"
    using assms by (simp add: unsigned_of_nat take_bit_nat_eq_self)
  have l: "length (frame_header (word_of_nat (length s))) = 4"
    by (simp add: frame_header_def)
  have h: "BigEndian_Uint32 (frame_header (word_of_nat (length s)) @ bytes_of s @ rest)
             = word_of_nat (length s)"
    by (rule Uint32_frame_header)
  show ?thesis
    by (simp add: parseString_def marshal_string_def h n l length_bytes_of string_of_bytes_of)
qed

lemma wire_greeting_round_trip:
  assumes "length (Name g) < 2 ^ 32"
  shows "wire_Unmarshal_greeting (wire_Marshal_greeting g) out = (None, g)"
  using parseString_marshal_string [OF assms, of "[]"]
  by (simp add: wire_Unmarshal_greeting_def wire_Marshal_greeting_def)

lemma wire_channelData_round_trip:
  assumes "length (Service m) < 2 ^ 32" and "length (join_commas (Headers m)) < 2 ^ 32"
    and "Headers m = [] \<or>
         (join_commas (Headers m) \<noteq> [] \<and> split_commas (join_commas (Headers m)) = Headers m)"
  shows "wire_Unmarshal_channelData (wire_Marshal_channelData m) out = (None, m)"
proof -
  have s: "parseString (marshal_string (Service m) @ marshal_string (join_commas (Headers m)))
             = Some (Service m, marshal_string (join_commas (Headers m)))"
    by (rule parseString_marshal_string [OF assms(1)])
  have "parseString (marshal_string (join_commas (Headers m)))
             = Some (join_commas (Headers m), [])"
    using parseString_marshal_string [OF assms(2), of "[]"] by simp
  then have h: "parseNameList (marshal_string (join_commas (Headers m))) = Some (Headers m, [])"
    using assms(3) by (auto simp: parseNameList_def)
  show ?thesis
    by (simp add: wire_Unmarshal_channelData_def wire_Marshal_channelData_def s h)
qed

section \<open>Inbound channel dispatch\<close>

lemma handled_decode_failure:
  assumes "chans s = c # rest" and "ChannelType c = ''@duplex''" and "c \<notin> set (decided s)"
    and "um (ExtraData c) (meta s) = (Some e, m)"
  shows "run_schedule um (recv_and_handle (length (handlers s))) s =
           s\<lparr>meta := m, newCh := Some c, chans := rest, handlers := handlers s @ [Returned],
              decided := decided s @ [c],
              replies := replies s @
                [(c, Reject UnknownChannelType ''failed to parse channel data'')]\<rparr>"
  using assms by (simp add: recv_and_handle_def NewChannel_Reject_def)

lemma handled_empty_service:
  assumes "chans s = c # rest" and "ChannelType c = ''@duplex''" and "c \<notin> set (decided s)"
    and "um (ExtraData c) (meta s) = (None, m)" and "Service m = ''''"
  shows "run_schedule um (recv_and_handle (length (handlers s))) s =
           s\<lparr>meta := m, newCh := Some c, chans := rest, handlers := handlers s @ [Returned],
              decided := decided s @ [c],
              replies := replies s @ [(c, Reject UnknownChannelType ''empty service'')]\<rparr>"
  using assms by (simp add: recv_and_handle_def NewChannel_Reject_def)

lemma handled_accept_error:
  assumes "chans s = c # rest" and "ChannelType c = ''@duplex''" and "c \<notin> set (decided s)"
    and "um (ExtraData c) (meta s) = (None, m)" and "Service m \<noteq> ''''"
    and "Accept c = Inl e"
  shows "run_schedule um (recv_and_handle (length (handlers s))) s =
           s\<lparr>meta := m, newCh := Some c, chans := rest, handlers := handlers s @ [Returned],
              decided := decided s @ [c], logs := logs s @ [''debug: accept error:'']\<rparr>"
  using assms by (simp add: recv_and_handle_def NewChannel_Accept_def)

lemma handled_accepted:
  assumes "chans s = c # rest" and "ChannelType c = ''@duplex''" and "c \<notin> set (decided s)"
    and "um (ExtraData c) (meta s) = (None, m)" and "Service m \<noteq> ''''"
    and "Accept c = Inr ch"
  shows "run_schedule um (recv_and_handle (length (handlers s))) s =
           s\<lparr>meta := m, newCh := Some c, chans := rest, handlers := handlers s @ [Returned],
              decided := decided s @ [c], replies := replies s @ [(c, Accepted)],
              peer := (peer s)\<lparr>incomingCh := incomingCh (peer s) @
                 [\<lparr>Channel = ch, channelData = m\<rparr>]\<rparr>\<rparr>"
  using assms by (simp add: recv_and_handle_def NewChannel_Accept_def)

text \<open>
  Claim C2, as amended. Take an inbound channel-open of type \<open>@duplex\<close> that has not been
  answered yet, and let its handler run to its end before the loop receives the next
  open and with no other handler in between. If decoding the metadata fails, the open is
  rejected with \<open>UnknownChannelType\<close> and the message \<open>"failed to parse channel data"\<close>.
  If the decoded service is empty, it is rejected the same way with \<open>"empty service"\<close>.
  Otherwise \<open>Accept()\<close> is called: when it succeeds, a Channel carrying exactly the
  decoded service and headers is pushed onto the intake queue; when it fails, the error
  is logged, no reply is sent and nothing is pushed. In the two reject cases nothing is
  pushed either.
\<close>

theorem channel_open_validation:
  assumes "chans s = c # rest" and "ChannelType c = ''@duplex''" and "c \<notin> set (decided s)"
    and "um (ExtraData c) (meta s) = (err, m)"
  shows "(err \<noteq> None \<longrightarrow>
          replies (run_schedule um (recv_and_handle (length (handlers s))) s) = replies s @
             [(c, Reject UnknownChannelType ''failed to parse channel data'')]
        \<and> incomingCh (peer (run_schedule um (recv_and_handle (length (handlers s))) s))
             = incomingCh (peer s))
    \<and> (err = None \<and> Service m = '''' \<longrightarrow>
          replies (run_schedule um (recv_and_handle (length (handlers s))) s) = replies s @
             [(c, Reject UnknownChannelType ''empty service'')]
        \<and> incomingCh (peer (run_schedule um (recv_and_handle (length (handlers s))) s))
             = incomingCh (peer s))
    \<and> (err = None \<and> Service m \<noteq> '''' \<longrightarrow>
          (\<forall>ch. Accept c = Inr ch \<longrightarrow>
             replies (run_schedule um (recv_and_handle (length (handlers s))) s)
               = replies s @ [(c, Accepted)]
           \<and> incomingCh (peer (run_schedule um (recv_and_handle (length (handlers s))) s))
               = incomingCh (peer s) @ [\<lparr>Channel = ch, channelData = m\<rparr>])
        \<and> (\<forall>e. Accept c = Inl e \<longrightarrow>
             replies (run_schedule um (recv_and_handle (length (handlers s))) s) = replies s
           \<and> incomingCh (peer (run_schedule um (recv_and_handle (length (handlers s))) s))
               = incomingCh (peer s)
           \<and> logs (run_schedule um (recv_and_handle (length (handlers s))) s)
               = logs s @ [''debug: accept error:'']))"
proof (intro conjI impI allI)
  assume "err \<noteq> None"
  then obtain e where "um (ExtraData c) (meta s) = (Some e, m)"
    using assms(4) by auto
  note h = handled_decode_failure [where um = um, OF assms(1,2,3) this]
  show "replies (run_schedule um (recv_and_handle (length (handlers s))) s) = replies s @
             [(c, Reject UnknownChannelType ''failed to parse channel data'')]"
    by (simp add: h)
  show "incomingCh (peer (run_schedule um (recv_and_handle (length (handlers s))) s))
          = incomingCh (peer s)"
    by (simp add: h)
next
  assume "err = None \<and> Service m = ''''"
  then have "um (ExtraData c) (meta s) = (None, m)" and "Service m = ''''"
    using assms(4) by auto
  note h = handled_empty_service [where um = um, OF assms(1,2,3) this]
  show "replies (run_schedule um (recv_and_handle (length (handlers s))) s) = replies s @
             [(c, Reject UnknownChannelType ''empty service'')]"
    by (simp add: h)
  show "incomingCh (peer (run_schedule um (recv_and_handle (length (handlers s))) s))
          = incomingCh (peer s)"
    by (simp add: h)
next
  fix ch
  assume a: "err = None \<and> Service m \<noteq> ''''" and b: "Accept c = Inr ch"
  from a have "um (ExtraData c) (meta s) = (None, m)" and "Service m \<noteq> ''''"
    using assms(4) by auto
  note h = handled_accepted [where um = um, OF assms(1,2,3) this b]
  show "replies (run_schedule um (recv_and_handle (length (handlers s))) s)
          = replies s @ [(c, Accepted)]"
    by (simp add: h)
  show "incomingCh (peer (run_schedule um (recv_and_handle (length (handlers s))) s))
          = incomingCh (peer s) @ [\<lparr>Channel = ch, channelData = m\<rparr>]"
    by (simp add: h)
next
  fix e
  assume a: "err = None \<and> Service m \<noteq> ''''" and b: "Accept c = Inl e"
  from a have "um (ExtraData c) (meta s) = (None, m)" and "Service m \<noteq> ''''"
    using assms(4) by auto
  note h = handled_accept_error [where um = um, OF assms(1,2,3) this b]
  show "replies (run_schedule um (recv_and_handle (length (handlers s))) s) = replies s"
    by (simp add: h)
  show "incomingCh (peer (run_schedule um (recv_and_handle (length (handlers s))) s))
          = incomingCh (peer s)"
    by (simp add: h)
  show "logs (run_schedule um (recv_and_handle (length (handlers s))) s)
          = logs s @ [''debug: accept error:'']"
    by (simp add: h)
qed

lemma decode_echo_meta:
  "wire_Unmarshal_channelData (wire_Marshal_channelData echo_meta) out = (None, echo_meta)"
  by (rule wire_channelData_round_trip) (simp_all add: echo_meta_def)

lemma decode_no_service:
  "wire_Unmarshal_channelData (wire_Marshal_channelData \<lparr>Service = '''', Headers = []\<rparr>) out
     = (None, \<lparr>Service = '''', Headers = []\<rparr>)"
  by (rule wire_channelData_round_trip) simp_all

lemma decode_garbled:
  "wire_Unmarshal_channelData [1, 2, 3] out = (Some (ssh_error ''ssh: parse error''), out)"
  by (simp add: wire_Unmarshal_channelData_def parseString_def)

lemma decode_nothing:
  "wire_Unmarshal_channelData [] out = (Some (ssh_error ''ssh: parse error''), out)"
  by (simp add: wire_Unmarshal_channelData_def parseString_def)

text \<open>The three outcomes on concrete opens, each the only open on its connection:
  \<open>Open("echo", ["v=1"])\<close> accepted and queued with its metadata, undecodable extra
  data rejected, an empty service rejected.\<close>

theorem channel_open_validation_witness:
  "replies (run_schedule wire_Unmarshal_channelData (recv_and_handle 0)
      (ssh_acceptChannels [open_echo] alice_peer)) = [(open_echo, Accepted)]
   \<and> incomingCh (peer (run_schedule wire_Unmarshal_channelData (recv_and_handle 0)
      (ssh_acceptChannels [open_echo] alice_peer)))
     = [\<lparr>Channel = \<lparr>pending = [], closed = False\<rparr>, channelData = echo_meta\<rparr>]
   \<and> replies (run_schedule wire_Unmarshal_channelData (recv_and_handle 0)
      (ssh_acceptChannels [open_garbled] alice_peer))
     = [(open_garbled, Reject UnknownChannelType ''failed to parse channel data'')]
   \<and> replies (run_schedule wire_Unmarshal_channelData (recv_and_handle 0)
      (ssh_acceptChannels [open_no_service] alice_peer))
     = [(open_no_service, Reject UnknownChannelType ''empty service'')]"
proof -
  let ?s = "\<lambda>c. ssh_acceptChannels [c] alice_peer"
  have i: "chans (?s c) = c # []" "c \<notin> set (decided (?s c))" "length (handlers (?s c)) = 0"
      "replies (?s c) = []" "incomingCh (peer (?s c)) = []" for c
    by (simp_all add: ssh_acceptChannels_def alice_peer_def)
  have a: "ChannelType open_echo = ''@duplex''"
    and b: "wire_Unmarshal_channelData (ExtraData open_echo) (meta (?s open_echo))
              = (None, echo_meta)"
    and c: "Accept open_echo = Inr \<lparr>pending = [], closed = False\<rparr>"
    by (simp_all add: open_echo_def decode_echo_meta)
  have d: "ChannelType open_garbled = ''@duplex''"
    and e: "wire_Unmarshal_channelData (ExtraData open_garbled) (meta (?s open_garbled))
              = (Some (ssh_error ''ssh: parse error''), meta (?s open_garbled))"
    by (simp_all add: open_garbled_def decode_garbled)
  have f: "ChannelType open_no_service = ''@duplex''"
    and g: "wire_Unmarshal_channelData (ExtraData open_no_service) (meta (?s open_no_service))
              = (None, \<lparr>Service = '''', Headers = []\<rparr>)"
    by (simp_all add: open_no_service_def decode_no_service)
  have n: "Service echo_meta \<noteq> ''''"
    by (simp add: echo_meta_def)
  show ?thesis
    using channel_open_validation [where um = wire_Unmarshal_channelData, OF i(1) a i(2) b]
      channel_open_validation [where um = wire_Unmarshal_channelData, OF i(1) d i(2) e]
      channel_open_validation [where um = wire_Unmarshal_channelData, OF i(1) f i(2) g]
      c n
    by (simp add: i)
qed

text \<open>
  Claim C2 as stated fails when \<open>Accept()\<close> returns an error: the open is of type
  \<open>@duplex\<close> and the only one on its connection, its metadata decodes to the service
  \<open>"echo"\<close>, and yet no reply is sent and the intake queue stays empty.
\<close>

theorem channel_open_accept_error_not_pushed:
  "ChannelType open_echo_gone = ''@duplex''
   \<and> wire_Unmarshal_channelData (ExtraData open_echo_gone)
        (meta (ssh_acceptChannels [open_echo_gone] alice_peer)) = (None, echo_meta)
   \<and> Service echo_meta = ''echo''
   \<and> replies (run_schedule wire_Unmarshal_channelData (recv_and_handle 0)
        (ssh_acceptChannels [open_echo_gone] alice_peer)) = []
   \<and> incomingCh (peer (run_schedule wire_Unmarshal_channelData (recv_and_handle 0)
        (ssh_acceptChannels [open_echo_gone] alice_peer))) = []"
proof -
  let ?s = "ssh_acceptChannels [open_echo_gone] alice_peer"
  have i: "chans ?s = open_echo_gone # []" "open_echo_gone \<notin> set (decided ?s)"
      "length (handlers ?s) = 0" "ChannelType open_echo_gone = ''@duplex''"
    by (simp_all add: ssh_acceptChannels_def open_echo_gone_def)
  have b: "wire_Unmarshal_channelData (ExtraData open_echo_gone) (meta ?s) = (None, echo_meta)"
    by (simp add: open_echo_gone_def decode_echo_meta)
  have n: "Service echo_meta \<noteq> ''''"
    by (simp add: echo_meta_def)
  have c: "Accept open_echo_gone = Inl EOF"
    by (simp add: open_echo_gone_def)
  have "run_schedule wire_Unmarshal_channelData (recv_and_handle (length (handlers ?s))) ?s =
          ?s\<lparr>meta := echo_meta, newCh := Some open_echo_gone, chans := [],
             handlers := handlers ?s @ [Returned], decided := decided ?s @ [open_echo_gone],
             logs := logs ?s @ [''debug: accept error:'']\<rparr>"
    by (rule handled_accept_error [where um = wire_Unmarshal_channelData, OF i(1) i(4) i(2) b n c])
  then show ?thesis
    using b i(4) by (simp add: i(3)) (simp add: ssh_acceptChannels_def alice_peer_def echo_meta_def)
qed

section \<open>Concurrent handlers\<close>

lemma decode_a:
  "wire_Unmarshal_channelData (ExtraData open_a) out = (None, \<lparr>Service = ''a'', Headers = []\<rparr>)"
  unfolding open_a_def by simp (rule wire_channelData_round_trip, simp_all)

lemma decode_b:
  "wire_Unmarshal_channelData (ExtraData open_b) out = (None, \<lparr>Service = ''b'', Headers = []\<rparr>)"
  unfolding open_b_def by simp (rule wire_channelData_round_trip, simp_all)

lemma opens_a_b:
  "ChannelType open_a = ''@duplex''" "ChannelType open_b = ''@duplex''"
  "Accept open_a = Inr \<lparr>pending = [], closed = False\<rparr>"
  "Accept open_b = Inr \<lparr>pending = [], closed = False\<rparr>"
  "open_a \<noteq> open_b" "open_b \<noteq> open_a"
  by (simp_all add: open_a_def open_b_def)

text \<open>
  Claim C5 says that concurrently opened channels arrive with the metadata sent for each.
  Two opens with the services \<open>"a"\<close> and \<open>"b"\<close> start two handlers that share \<open>meta\<close>.
  The first handler decodes, checks and accepts its open; then the second open arrives
  and its handler decodes; then the first handler sends, and the second runs to its end.
  Each open is accepted once, and both queue entries carry the service \<open>"b"\<close>: the
  metadata of the first open is lost.
\<close>

theorem concurrent_opens_cross_talk:
  "map (\<lambda>c. Service (snd (wire_Unmarshal_channelData (ExtraData c)
          (meta (ssh_acceptChannels [] alice_peer))))) [open_a, open_b]
     = [''a'', ''b'']
   \<and> replies (run_schedule wire_Unmarshal_channelData
        [Recv, Step 0, Step 0, Step 0, Recv, Step 1, Step 0, Step 1, Step 1, Step 1]
        (ssh_acceptChannels [open_a, open_b] alice_peer))
     = [(open_a, Accepted), (open_b, Accepted)]
   \<and> map ssh_channel_Service (incomingCh (peer
      (run_schedule wire_Unmarshal_channelData
         [Recv, Step 0, Step 0, Step 0, Recv, Step 1, Step 0, Step 1, Step 1, Step 1]
         (ssh_acceptChannels [open_a, open_b] alice_peer)))) = [''b'', ''b'']"
  by (simp add: ssh_acceptChannels_def opens_a_b decode_a decode_b ssh_channel_Service_def
      alice_peer_def NewChannel_Accept_def)

text \<open>With each handler run to its end before the next open is received, the two
  services arrive with their own channels.\<close>

lemma sequential_opens_paired:
  "map ssh_channel_Service (incomingCh (peer
      (run_schedule wire_Unmarshal_channelData (recv_and_handle 0 @ recv_and_handle 1)
         (ssh_acceptChannels [open_a, open_b] alice_peer)))) = [''a'', ''b'']"
  by (simp add: ssh_acceptChannels_def recv_and_handle_def opens_a_b decode_a decode_b
      ssh_channel_Service_def alice_peer_def NewChannel_Accept_def)

section \<open>Opens of other channel types\<close>

text \<open>The loop itself does nothing with an open of another type: it starts no
  goroutine and sends no reply, and goes on to the next open.\<close>

lemma recv_other_type:
  assumes "chans s = c # rest" and "ChannelType c \<noteq> ''@duplex''"
  shows "sched_step um Recv s = s\<lparr>newCh := Some c, chans := rest\<rparr>"
  using assms by simp

text \<open>
  Claim C9 says that an open whose type is not \<open>@duplex\<close> gets no reply, neither accept
  nor reject. A \<open>@duplex\<close> open followed by a \<open>session\<close> open: when the loop has received
  both before the goroutine started for the first one runs, that goroutine reads the
  \<open>session\<close> open from \<open>newCh\<close>, fails to decode its empty extra data and rejects it. The
  \<open>session\<close> open is answered with a reject, and the \<open>@duplex\<close> open is never answered.
\<close>

theorem non_duplex_open_rejected_by_handler:
  "ChannelType open_session = ''session''
   \<and> replies (run_schedule wire_Unmarshal_channelData [Recv, Recv, Step 0, Step 0]
        (ssh_acceptChannels [open_a, open_session] alice_peer))
     = [(open_session, Reject UnknownChannelType ''failed to parse channel data'')]
   \<and> handlers (run_schedule wire_Unmarshal_channelData [Recv, Recv, Step 0, Step 0]
        (ssh_acceptChannels [open_a, open_session] alice_peer)) = [Returned]"
proof -
  have t: "ChannelType open_session = ''session''" "ExtraData open_session = []"
    by (simp_all add: open_session_def)
  show ?thesis
    by (simp add: ssh_acceptChannels_def opens_a_b t decode_nothing NewChannel_Reject_def)
qed


section \<open>Accepting a connection\<close>

text \<open>
  Claim C3, as amended. When the greeting fails on an inbound connection whose handshake
  succeeded (\<open>SendRequest\<close> returns an error or a negative acknowledgment), the connection
  is closed, the failure is logged and the channel accept loop is never entered; the
  entry that \<open>ssh_handleConn\<close> stored under the remote address before greeting is still in
  the registry, and the intake queue is untouched.
\<close>

theorem greeting_failure_closes_conn:
  assumes "err \<noteq> None \<or> \<not> ok"
  shows "hc_conn_closed (ssh_handleConn Marshal c (Inr sshConn) (ok, err) p)
    \<and> hc_accepting (ssh_handleConn Marshal c (Inr sshConn) (ok, err) p) = None
    \<and> hc_logs (ssh_handleConn Marshal c (Inr sshConn) (ok, err) p) = [''debug: failed to greet:'']
    \<and> conns (hc_peer (ssh_handleConn Marshal c (Inr sshConn) (ok, err) p)) (RemoteAddr_String c)
        = Some \<lparr>addr = RemoteAddr_Network c @ ''://'' @ RemoteAddr_String c,
                name = User sshConn, conn = sc_handle sshConn\<rparr>
    \<and> incomingCh (hc_peer (ssh_handleConn Marshal c (Inr sshConn) (ok, err) p)) = incomingCh p"
  using assms by (auto simp: ssh_handleConn_def Let_def)

text \<open>A greeting whose send fails with \<open>io.EOF\<close>.\<close>

theorem greeting_failure_closes_conn_witness:
  "hc_conn_closed (ssh_handleConn wire_Marshal_greeting tcp_conn (Inr bob_serverConn)
      (False, Some EOF) alice_peer)
   \<and> hc_accepting (ssh_handleConn wire_Marshal_greeting tcp_conn (Inr bob_serverConn)
      (False, Some EOF) alice_peer) = None
   \<and> conns (hc_peer (ssh_handleConn wire_Marshal_greeting tcp_conn (Inr bob_serverConn)
      (False, Some EOF) alice_peer)) ''10.0.0.2:41000''
      = Some \<lparr>addr = ''tcp://10.0.0.2:41000'', name = ''bob'', conn = 1\<rparr>"
  using greeting_failure_closes_conn [of "Some EOF" False wire_Marshal_greeting tcp_conn
      bob_serverConn alice_peer]
  by (simp add: tcp_conn_def bob_serverConn_def)

text \<open>
  Claim C3 as stated fails: after a greeting that is acknowledged negatively, the registry,
  which was empty before, holds an entry under the connection's remote address.
\<close>

theorem greeting_failure_leaves_entry:
  "conns alice_peer (RemoteAddr_String tcp_conn) = None
   \<and> conns (hc_peer (ssh_handleConn wire_Marshal_greeting tcp_conn (Inr bob_serverConn)
        (False, None) alice_peer)) (RemoteAddr_String tcp_conn)
      = Some \<lparr>addr = ''tcp://10.0.0.2:41000'', name = ''bob'', conn = 1\<rparr>"
  by (simp add: ssh_handleConn_def Let_def alice_peer_def tcp_conn_def bob_serverConn_def)

section \<open>Server-side authentication\<close>

text \<open>
  Claim C7. The authentication callback accepts the offered key exactly when its
  serialisation equals, byte for byte, the serialisation of the public half of the
  server's own key; any other key is refused with the error \<open>"unauthorized"\<close>.
\<close>

theorem PublicKeyCallback_single_key:
  "((\<exists>perm. PublicKeyCallback Marshal own cm key = Inr perm) \<longleftrightarrow> Marshal key = Marshal own)
   \<and> (Marshal key \<noteq> Marshal own \<longrightarrow>
        PublicKeyCallback Marshal own cm key = Inl (errors_New ''unauthorized''))"
  by (simp add: PublicKeyCallback_def)

text \<open>Keys given by their serialisation: the server's own key is accepted, another key
  is refused.\<close>

theorem PublicKeyCallback_single_key_witness:
  "PublicKeyCallback (\<lambda>k. k) [1, 2, 3 :: byte] () [1, 2, 3] = Inr Permissions
   \<and> PublicKeyCallback (\<lambda>k. k) [1, 2, 3 :: byte] () [1, 2, 4]
       = Inl (errors_New ''unauthorized'')"
proof -
  have "\<exists>perm. PublicKeyCallback (\<lambda>k. k) [1, 2, 3 :: byte] () [1, 2, 3] = Inr perm"
    using PublicKeyCallback_single_key [of "\<lambda>k. k" "[1, 2, 3 :: byte]" "()" "[1, 2, 3]"]
    by simp
  then obtain perm where a: "PublicKeyCallback (\<lambda>k. k) [1, 2, 3 :: byte] () [1, 2, 3] = Inr perm"
    by blast
  have "perm = Permissions"
    by (cases perm) simp
  with a have a': "PublicKeyCallback (\<lambda>k. k) [1, 2, 3 :: byte] () [1, 2, 3] = Inr Permissions"
    by simp
  have b: "PublicKeyCallback (\<lambda>k. k) [1, 2, 3 :: byte] () [1, 2, 4]
             = Inl (errors_New ''unauthorized'')"
    using PublicKeyCallback_single_key [of "\<lambda>k. k" "[1, 2, 3 :: byte]" "()" "[1, 2, 4]"]
    by simp
  show ?thesis
    using a' b by simp
qed

section \<open>Dialing\<close>





lemma decode_greeting_alice:
  "wire_Unmarshal_greeting (wire_Marshal_greeting \<lparr>Name = ''alice''\<rparr>) out = (None, \<lparr>Name = ''alice''\<rparr>)"
  by (rule wire_greeting_round_trip) simp



section \<open>Out-of-band requests on a dialed connection\<close>

text \<open>When the request loop runs to the end of the stream, every request whose name is
  not \<open>@duplex-greeting\<close> has been answered with \<open>Reply(false, nil)\<close>.\<close>

lemma request_loop_replies_mono:
  "request_loop um reqs handed rs = (handed', rs', st) \<Longrightarrow> set rs \<subseteq> set rs'"
proof (induction reqs arbitrary: handed rs)
  case Nil
  then show ?case by simp
next
  case (Cons q reqs)
  show ?case
  proof (cases "Type q = ''@duplex-greeting''")
    case False
    with Cons.prems have "request_loop um reqs handed (rs @ [(q, False)]) = (handed', rs', st)"
      by simp
    from Cons.IH [OF this] show ?thesis by simp
  next
    case True
    obtain e g where u: "um (Payload q) \<lparr>Name = ''''\<rparr> = (e, g)"
      by (cases "um (Payload q) \<lparr>Name = ''''\<rparr>")
    show ?thesis
    proof (cases e)
      case (Some err)
      with True u Cons.prems have "request_loop um reqs handed rs = (handed', rs', st)"
        by simp
      from Cons.IH [OF this] show ?thesis .
    next
      case None
      show ?thesis
      proof (cases handed)
        case (Some nm)
        with True u None Cons.prems show ?thesis by simp
      next
        case no: None
        with True u None Cons.prems
        have "request_loop um reqs (Some (Name g)) (rs @ [(q, True)]) = (handed', rs', st)"
          by simp
        from Cons.IH [OF this] show ?thesis by simp
      qed
    qed
  qed
qed

lemma request_loop_exited_replies:
  assumes "request_loop um reqs handed rs = (handed', rs', Exited)"
    and "r \<in> set reqs" and "Type r \<noteq> ''@duplex-greeting''"
  shows "(r, False) \<in> set rs'"
  using assms(1,2)
proof (induction reqs arbitrary: handed rs)
  case Nil
  then show ?case by simp
next
  case (Cons q reqs)
  show ?case
  proof (cases "Type q = ''@duplex-greeting''")
    case False
    with Cons.prems have run: "request_loop um reqs handed (rs @ [(q, False)]) = (handed', rs', Exited)"
      by simp
    show ?thesis
    proof (cases "r = q")
      case True
      with request_loop_replies_mono [OF run] show ?thesis by auto
    next
      case neq: False
      with Cons.prems have "r \<in> set reqs" by simp
      from Cons.IH [OF run this] show ?thesis .
    qed
  next
    case True
    with assms(3) Cons.prems have mem: "r \<in> set reqs" by auto
    obtain e g where u: "um (Payload q) \<lparr>Name = ''''\<rparr> = (e, g)"
      by (cases "um (Payload q) \<lparr>Name = ''''\<rparr>")
    show ?thesis
    proof (cases e)
      case (Some err)
      with True u Cons.prems have "request_loop um reqs handed rs = (handed', rs', Exited)"
        by simp
      from Cons.IH [OF this mem] show ?thesis .
    next
      case None
      show ?thesis
      proof (cases handed)
        case (Some nm)
        with True u None Cons.prems show ?thesis by simp
      next
        case no: None
        with True u None Cons.prems
        have "request_loop um reqs (Some (Name g)) (rs @ [(q, True)]) = (handed', rs', Exited)"
          by simp
        from Cons.IH [OF this mem] show ?thesis .
      qed
    qed
  qed
qed

text \<open>
  Claim C8 says that every request other than \<open>@duplex-greeting\<close> on an established
  connection is answered negatively. After a second greeting the loop is stuck in
  \<open>nameCh <- greeting.Name\<close>, which has no receiver any more: the keepalive that follows
  gets no reply at all. The only \<open>Reply\<close> made is the one to the first greeting.
\<close>

theorem keepalive_after_second_greeting_unanswered:
  "request_loop wire_Unmarshal_greeting [greeting_alice, greeting_alice, keepalive] None []
     = (Some ''alice'', [(greeting_alice, True)], BlockedOnSend)"
proof -
  have t: "Type keepalive = ''keepalive@openssh.com''" "Type greeting_alice = ''@duplex-greeting''"
      "Payload greeting_alice = wire_Marshal_greeting \<lparr>Name = ''alice''\<rparr>"
    by (simp_all add: keepalive_def greeting_alice_def)
  show ?thesis
    by (simp add: t decode_greeting_alice)
qed

end
